theory Spec2Isabelle
  imports Complex_Main
begin

section \<open>Python values\<close>

text \<open>
  The application (\<^verbatim>\<open>app.py\<close>) is a Streamlit script. It handles three kinds of
  dynamically typed data: the parsed body of the simulation response, the value returned
  by \<^verbatim>\<open>decode_abi_if_provided\<close> (a \<^verbatim>\<open>str\<close> or a \<^verbatim>\<open>dict\<close>), and the decoded ABI
  parameters. All three are values of one type of Python objects.

  A \<^verbatim>\<open>float\<close> is kept as the rational it denotes, or one of the three special values:
  the script only tests floats for truth and compares them with an \<^verbatim>\<open>int\<close>, and Python
  does both exactly. A \<^verbatim>\<open>str\<close> is kept as the list of its UTF-8 bytes. A \<^verbatim>\<open>dict\<close> with
  \<^verbatim>\<open>str\<close> keys is an association list read with \<open>map_of\<close>.
\<close>

datatype pyfloat = Finite rat | PosInf | NegInf | NaN

datatype pyval =
    PNone
  | PBool bool
  | PInt int
  | PFloat pyfloat
  | PStr string
  | PBytes string
  | PList "pyval list"
  | PTuple "pyval list"
  | PDict "(string \<times> pyval) list"

text \<open>
  Exceptions. The type holds instances of Python's \<^verbatim>\<open>Exception\<close>: the three the script's
  own expressions raise, and whatever a library call raises (\<^verbatim>\<open>json\<close>, \<^verbatim>\<open>web3\<close>,
  \<^verbatim>\<open>requests\<close>, \<^verbatim>\<open>PIL\<close>), kept with its message. Both handlers of the script are
  \<^verbatim>\<open>except Exception\<close>, so they catch every value of this type.
\<close>

datatype exn = TypeError | KeyError | AttributeError | LibraryError string

definition bnd :: "exn + 'a \<Rightarrow> ('a \<Rightarrow> exn + 'b) \<Rightarrow> exn + 'b" where
  "bnd m f = (case m of Inl e \<Rightarrow> Inl e | Inr x \<Rightarrow> f x)"

subsection \<open>The operations of Python the script uses\<close>

text \<open>\<^verbatim>\<open>bool(v)\<close>, as \<^verbatim>\<open>if v:\<close> and \<^verbatim>\<open>not v\<close> compute it.\<close>

fun truthy :: "pyval \<Rightarrow> bool" where
  "truthy PNone = False"
| "truthy (PBool b) = b"
| "truthy (PInt n) = (n \<noteq> 0)"
| "truthy (PFloat (Finite q)) = (q \<noteq> 0)"
| "truthy (PFloat f) = True"
| "truthy (PStr s) = (s \<noteq> [])"
| "truthy (PBytes s) = (s \<noteq> [])"
| "truthy (PList xs) = (xs \<noteq> [])"
| "truthy (PTuple xs) = (xs \<noteq> [])"
| "truthy (PDict kvs) = (kvs \<noteq> [])"

text \<open>\<^verbatim>\<open>s.startswith(p)\<close>.\<close>

definition startswith :: "string \<Rightarrow> string \<Rightarrow> bool" where
  "startswith s p = (take (length p) s = p)"

text \<open>\<^verbatim>\<open>p in s\<close> for two strings.\<close>

fun is_substring :: "string \<Rightarrow> string \<Rightarrow> bool" where
  "is_substring p [] = (p = [])"
| "is_substring p (c # cs) = (startswith (c # cs) p \<or> is_substring p cs)"

text \<open>
  \<^verbatim>\<open>k in v\<close> for a string \<^verbatim>\<open>k\<close>: key membership in a dict, element membership in a
  list or tuple (only a \<^verbatim>\<open>str\<close> equals a \<^verbatim>\<open>str\<close>), substring test in a \<^verbatim>\<open>str\<close>, and
  \<^verbatim>\<open>TypeError\<close> for everything else.
\<close>

fun py_in :: "string \<Rightarrow> pyval \<Rightarrow> exn + bool" where
  "py_in k (PDict kvs) = Inr (map_of kvs k \<noteq> None)"
| "py_in k (PList xs) = Inr (PStr k \<in> set xs)"
| "py_in k (PTuple xs) = Inr (PStr k \<in> set xs)"
| "py_in k (PStr s) = Inr (is_substring k s)"
| "py_in k v = Inl TypeError"

text \<open>
  \<^verbatim>\<open>v[k]\<close> for a string \<^verbatim>\<open>k\<close>: the value in a dict (\<^verbatim>\<open>KeyError\<close> when the key is
  missing) and \<^verbatim>\<open>TypeError\<close> for every other object: sequences take integer indices,
  the rest is not subscriptable.
\<close>

fun py_getitem :: "pyval \<Rightarrow> string \<Rightarrow> exn + pyval" where
  "py_getitem (PDict kvs) k = (case map_of kvs k of None \<Rightarrow> Inl KeyError | Some v \<Rightarrow> Inr v)"
| "py_getitem v k = Inl TypeError"

text \<open>\<^verbatim>\<open>v.get(k, d)\<close>: only a dict has the method.\<close>

fun py_get :: "pyval \<Rightarrow> string \<Rightarrow> pyval \<Rightarrow> exn + pyval" where
  "py_get (PDict kvs) k d = Inr (case map_of kvs k of None \<Rightarrow> d | Some v \<Rightarrow> v)"
| "py_get v k d = Inl AttributeError"

text \<open>
  \<^verbatim>\<open>v > n\<close> for an \<^verbatim>\<open>int\<close> \<^verbatim>\<open>n\<close>. A \<^verbatim>\<open>bool\<close> is the integer 0 or 1, a float is
  compared by its exact value (\<^verbatim>\<open>nan\<close> compares false), and ordering \<^verbatim>\<open>None\<close>, a
  string or a container against an \<^verbatim>\<open>int\<close> raises \<^verbatim>\<open>TypeError\<close>.
\<close>

fun py_gt :: "pyval \<Rightarrow> int \<Rightarrow> exn + bool" where
  "py_gt (PInt m) n = Inr (n < m)"
| "py_gt (PBool b) n = Inr (n < (if b then 1 else 0))"
| "py_gt (PFloat (Finite q)) n = Inr (of_int n < q)"
| "py_gt (PFloat PosInf) n = Inr True"
| "py_gt (PFloat NegInf) n = Inr False"
| "py_gt (PFloat NaN) n = Inr False"
| "py_gt v n = Inl TypeError"

text \<open>
  The items of \<^verbatim>\<open>v[:3]\<close>, in order, as \<^verbatim>\<open>enumerate(v[:3])\<close> yields them. A list or a
  tuple gives its first three elements. A \<^verbatim>\<open>str\<close> gives one-character strings and a
  \<^verbatim>\<open>bytes\<close> gives integers; the script indexes each item with a string key, which
  raises \<^verbatim>\<open>TypeError\<close> for both whatever the character or byte is. Slicing a dict
  raises (\<^verbatim>\<open>TypeError\<close> up to Python 3.11, \<^verbatim>\<open>KeyError\<close> from 3.12), as does slicing a
  number or \<^verbatim>\<open>None\<close>.
\<close>

fun py_first3 :: "pyval \<Rightarrow> exn + pyval list" where
  "py_first3 (PList xs) = Inr (take 3 xs)"
| "py_first3 (PTuple xs) = Inr (take 3 xs)"
| "py_first3 (PStr s) = Inr (map (\<lambda>c. PStr [c]) (take 3 s))"
| "py_first3 (PBytes s) = Inr (map (\<lambda>c. PInt (of_char c)) (take 3 s))"
| "py_first3 v = Inl TypeError"

text \<open>\<^verbatim>\<open>isinstance(v, dict)\<close>.\<close>

fun is_dict :: "pyval \<Rightarrow> bool" where
  "is_dict (PDict kvs) = True"
| "is_dict v = False"

section \<open>The page, the network and the libraries\<close>

text \<open>
  An f-string is kept as its pieces: literal text, and the objects whose \<^verbatim>\<open>str()\<close> is
  spliced in. The script never inspects a formatted string, it only displays or sends it.
\<close>

datatype piece = Lit string | Fmt pyval | FmtExn exn

type_synonym ftext = "piece list"

datatype image = Image string

text \<open>
  The elements a run of the script puts on the page, in order. \<open>InColumn i el\<close> is an
  element placed in column \<open>i\<close> of the last \<^verbatim>\<open>st.columns\<close> row. Input widgets are not
  elements: their values are the inputs of the run. The spinner is transient and leaves
  nothing on the page. A display call is modelled as appending its element.
\<close>

datatype element =
    StTitle string
  | StMarkdown string
  | StSubheader string
  | StCaption ftext
  | StJson pyval
  | StError ftext
  | StWarning ftext
  | StMetric string pyval
  | StDataframe pyval
  | StColumns nat
  | StImage image nat
  | InColumn nat element

text \<open>An HTTP request as \<^verbatim>\<open>requests\<close> sends it, and the part of a response the script reads.\<close>

datatype request =
    Post string "(string \<times> ftext) list" pyval
  | Get ftext "(string \<times> ftext) list"

record response =
  status_code :: int
  content :: string

datatype contract = Contract pyval

datatype func_obj = ContractFunction (fn_name: string)

text \<open>
  What the script does not compute itself is a parameter of the model: the JSON parser
  (\<^verbatim>\<open>json.loads\<close>, and \<^verbatim>\<open>Response.json()\<close>, which parses the body), \<^verbatim>\<open>web3\<close>'s contract
  factory and call-data decoder, the remote servers behind \<^verbatim>\<open>requests.post\<close> and
  \<^verbatim>\<open>requests.get\<close> (the answer may depend on the requests sent before), and \<^verbatim>\<open>PIL\<close>'s
  \<^verbatim>\<open>Image.open\<close>. Each returns a value or raises.
\<close>

record env =
  json_loads :: "string \<Rightarrow> exn + pyval"
  eth_contract :: "pyval \<Rightarrow> exn + contract"
  decode_function_input :: "contract \<Rightarrow> string \<Rightarrow> exn + (func_obj \<times> (string \<times> pyval) list)"
  requests_post :: "request list \<Rightarrow> request \<Rightarrow> exn + response"
  requests_get :: "request list \<Rightarrow> request \<Rightarrow> exn + response"
  image_open :: "string \<Rightarrow> exn + image"

text \<open>
  The state a run reads and writes: the page, the requests sent so far, the two caches of
  \<^verbatim>\<open>st.cache_data\<close> (each entry with the time it was stored), and the trace of the calls
  made to the two cached functions.
\<close>

datatype call = SimulateTx string string int | GetNftImage string pyval pyval

record state =
  ui :: "element list"
  net :: "request list"
  sim_cache :: "((string \<times> string \<times> int) \<times> rat \<times> pyval) list"
  img_cache :: "((string \<times> pyval \<times> pyval) \<times> rat \<times> image option) list"
  calls :: "call list"

text \<open>
  A piece of the script is an action: it runs in a state and returns or raises, leaving
  the state as it was at that point.
\<close>

type_synonym 'a action = "state \<Rightarrow> (exn + 'a) \<times> state"

definition ret :: "'a \<Rightarrow> 'a action" where
  "ret x s = (Inr x, s)"

definition lift :: "exn + 'a \<Rightarrow> 'a action" where
  "lift r s = (r, s)"

definition seq :: "'a action \<Rightarrow> ('a \<Rightarrow> 'b action) \<Rightarrow> 'b action" where
  "seq m f s = (case m s of (Inl e, s') \<Rightarrow> (Inl e, s') | (Inr x, s') \<Rightarrow> f x s')"

text \<open>\<^verbatim>\<open>try: body  except Exception as e: handler\<close>.\<close>

definition try_except :: "'a action \<Rightarrow> (exn \<Rightarrow> 'a action) \<Rightarrow> 'a action" where
  "try_except body handler s =
     (case body s of (Inl e, s') \<Rightarrow> handler e s' | (Inr x, s') \<Rightarrow> (Inr x, s'))"

definition st :: "element \<Rightarrow> unit action" where
  "st el s = (Inr (), s\<lparr>ui := ui s @ [el]\<rparr>)"

section \<open>The ABI decoder\<close>

text \<open>
  The \<^verbatim>\<open>try\<close> block of \<^verbatim>\<open>decode_abi_if_provided\<close>: parse the ABI, build the contract
  (\<^verbatim>\<open>Web3().eth.contract(abi=abi)\<close>), decode the call data, and return a dict with the
  two keys \<^verbatim>\<open>function\<close> and \<^verbatim>\<open>params\<close>.
\<close>

definition decode_body :: "env \<Rightarrow> string \<Rightarrow> string \<Rightarrow> exn + pyval" where
  "decode_body env raw_tx abi_json =
     bnd (json_loads env abi_json) (\<lambda>abi.
     bnd (eth_contract env abi) (\<lambda>contract.
     bnd (decode_function_input env contract raw_tx) (\<lambda>(func_obj, params).
     Inr (PDict [(''function'', PStr (fn_name func_obj)), (''params'', PDict params)]))))"

text \<open>
  \<^verbatim>\<open>decode_abi_if_provided(raw_tx, abi_json)\<close>. The ABI text is \<open>None\<close> when absent;
  \<^verbatim>\<open>not abi_json\<close> holds for \<open>None\<close> and for the empty string.
\<close>

definition decode_abi_if_provided :: "env \<Rightarrow> string \<Rightarrow> string option \<Rightarrow> pyval action" where
  "decode_abi_if_provided env raw_tx abi_json =
     (case abi_json of
        None \<Rightarrow> ret (PStr raw_tx)
      | Some a \<Rightarrow>
          if a = [] then ret (PStr raw_tx)
          else try_except (lift (decode_body env raw_tx a))
                 (\<lambda>e. seq (st (StWarning [Lit ''ABI decoding failed: '', FmtExn e]))
                        (\<lambda>_. ret (PStr raw_tx))))"

text \<open>The ABI Decoder tab: decode when an ABI was entered, and show the result if it is a dict.\<close>

definition abi_tab :: "env \<Rightarrow> string \<Rightarrow> string \<Rightarrow> unit action" where
  "abi_tab env raw_tx abi_json =
     (if abi_json \<noteq> [] then
        seq (decode_abi_if_provided env raw_tx (Some abi_json)) (\<lambda>decoded.
        if is_dict decoded then st (StJson decoded) else ret ())
      else ret ())"

section \<open>The two cached functions\<close>

definition DUNE_API_URL :: string where
  "DUNE_API_URL = ''https://api.sim.dune.com/v1/simulate''"

definition CHAIN_IDS :: "(string \<times> int) list" where
  "CHAIN_IDS =
     [(''Ethereum'', 1),
      (''Polygon'', 137),
      (''BNB Smart Chain'', 56),
      (''Arbitrum'', 42161),
      (''Optimism'', 10),
      (''Avalanche C-Chain'', 43114),
      (''Fantom'', 250),
      (''Celo'', 42220),
      (''Gnosis (xDAI)'', 100),
      (''zkSync Era'', 324),
      (''Base'', 8453),
      (''Linea'', 59144),
      (''Polygon zkEVM'', 1101),
      (''Scroll'', 534352),
      (''Mantle'', 5000),
      (''Kava'', 2222),
      (''Metis'', 1088),
      (''Moonbeam'', 1284),
      (''Moonriver'', 1285),
      (''Harmony'', 1666600000),
      (''Cronos'', 25),
      (''Aurora'', 1313161554)]"

text \<open>\<^verbatim>\<open>CHAIN_IDS[chain]\<close>.\<close>

definition chain_id_of :: "string \<Rightarrow> exn + int" where
  "chain_id_of chain = (case map_of CHAIN_IDS chain of None \<Rightarrow> Inl KeyError | Some i \<Rightarrow> Inr i)"

text \<open>
  Sending a request: the request joins the log of requests sent, and the server (or the
  failure to reach it) decides the outcome.
\<close>

definition http_post :: "env \<Rightarrow> request \<Rightarrow> response action" where
  "http_post env req s = (requests_post env (net s) req, s\<lparr>net := net s @ [req]\<rparr>)"

definition http_get :: "env \<Rightarrow> request \<Rightarrow> response action" where
  "http_get env req s = (requests_get env (net s) req, s\<lparr>net := net s @ [req]\<rparr>)"

text \<open>
  The body of \<^verbatim>\<open>simulate_tx\<close>: one POST, and the parsed body of whatever response
  comes back. The status code of the response is not read.
\<close>

definition simulate_tx_body :: "env \<Rightarrow> string \<Rightarrow> string \<Rightarrow> int \<Rightarrow> pyval action" where
  "simulate_tx_body env api_key tx_data chain_id =
     (let headers = [(''Authorization'', [Lit ''Bearer '', Fmt (PStr api_key)])];
          payload = PDict [(''transaction'', PDict [(''data'', PStr tx_data)]),
                           (''chain_id'', PInt chain_id)]
      in seq (http_post env (Post DUNE_API_URL headers payload)) (\<lambda>resp.
         lift (json_loads env (content resp))))"

text \<open>
  The body of \<^verbatim>\<open>get_nft_image\<close>: one GET; the image when the status is 200, \<open>None\<close>
  otherwise.
\<close>

definition get_nft_image_body :: "env \<Rightarrow> string \<Rightarrow> pyval \<Rightarrow> pyval \<Rightarrow> image option action" where
  "get_nft_image_body env api_key contract_address token_id =
     seq (http_get env
            (Get [Lit ''https://api.sim.dune.com/v1/nft/'', Fmt contract_address, Lit ''/'', Fmt token_id]
                 [(''Authorization'', [Lit ''Bearer '', Fmt (PStr api_key)])])) (\<lambda>response.
     if status_code response = 200
     then seq (lift (image_open env (content response))) (\<lambda>img. ret (Some img))
     else ret None)"

text \<open>
  Modelled from the spec: the memoising decorator \<^verbatim>\<open>st.cache_data\<close>, whose code is
  Streamlit's and not part of the sources. The source gives its use: \<^verbatim>\<open>ttl=300\<close> on
  \<^verbatim>\<open>simulate_tx\<close>, no \<^verbatim>\<open>ttl\<close> on \<^verbatim>\<open>get_nft_image\<close>, and the arguments of the call as
  the key. The spec gives its meaning: a call whose arguments were seen within the
  freshness window returns the result obtained then and sends nothing; otherwise the
  function runs and its result is stored with the time. A call that raises returns no
  result, so nothing is stored. The clock is the parameter \<open>now\<close>, in seconds; an entry
  stored at \<open>t\<close> with window \<open>w\<close> is fresh while \<open>now < t + w\<close>.
\<close>

definition cache_lookup :: "rat option \<Rightarrow> rat \<Rightarrow> ('k \<times> rat \<times> 'v) list \<Rightarrow> 'k \<Rightarrow> 'v option" where
  "cache_lookup ttl now cache key =
     (case map_of cache key of
        None \<Rightarrow> None
      | Some (t, v) \<Rightarrow>
          (case ttl of
             None \<Rightarrow> Some v
           | Some w \<Rightarrow> if now < t + w then Some v else None))"

text \<open>\<^verbatim>\<open>@st.cache_data(ttl=300) def simulate_tx(api_key, tx_data, chain_id)\<close>.\<close>

definition simulate_tx :: "env \<Rightarrow> rat \<Rightarrow> string \<Rightarrow> string \<Rightarrow> int \<Rightarrow> pyval action" where
  "simulate_tx env now api_key tx_data chain_id s =
     (let s0 = s\<lparr>calls := calls s @ [SimulateTx api_key tx_data chain_id]\<rparr> in
      case cache_lookup (Some 300) now (sim_cache s0) (api_key, tx_data, chain_id) of
        Some v \<Rightarrow> (Inr v, s0)
      | None \<Rightarrow>
          (case simulate_tx_body env api_key tx_data chain_id s0 of
             (Inl e, s1) \<Rightarrow> (Inl e, s1)
           | (Inr v, s1) \<Rightarrow>
               (Inr v, s1\<lparr>sim_cache := ((api_key, tx_data, chain_id), (now, v)) # sim_cache s1\<rparr>)))"

text \<open>\<^verbatim>\<open>@st.cache_data def get_nft_image(api_key, contract_address, token_id)\<close>.\<close>

definition get_nft_image :: "env \<Rightarrow> rat \<Rightarrow> string \<Rightarrow> pyval \<Rightarrow> pyval \<Rightarrow> image option action" where
  "get_nft_image env now api_key contract_address token_id s =
     (let s0 = s\<lparr>calls := calls s @ [GetNftImage api_key contract_address token_id]\<rparr> in
      case cache_lookup None now (img_cache s0) (api_key, contract_address, token_id) of
        Some v \<Rightarrow> (Inr v, s0)
      | None \<Rightarrow>
          (case get_nft_image_body env api_key contract_address token_id s0 of
             (Inl e, s1) \<Rightarrow> (Inl e, s1)
           | (Inr v, s1) \<Rightarrow>
               (Inr v, s1\<lparr>img_cache :=
                  ((api_key, contract_address, token_id), (now, v)) # img_cache s1\<rparr>)))"

section \<open>The Simulate button\<close>

text \<open>The emoji of the script's literals, as their UTF-8 bytes.\<close>

definition crystal_ball :: string where "crystal_ball = [CHR 0xF0, CHR 0x9F, CHR 0x94, CHR 0xAE]"
definition bar_chart :: string where "bar_chart = [CHR 0xF0, CHR 0x9F, CHR 0x93, CHR 0x8A]"
definition cross_mark :: string where "cross_mark = [CHR 0xE2, CHR 0x9D, CHR 0x8C]"
definition check_mark :: string where "check_mark = [CHR 0xE2, CHR 0x9C, CHR 0x85]"
definition money_wings :: string where "money_wings = [CHR 0xF0, CHR 0x9F, CHR 0x92, CHR 0xB8]"
definition framed_picture :: string where
  "framed_picture = [CHR 0xF0, CHR 0x9F, CHR 0x96, CHR 0xBC, CHR 0xEF, CHR 0xB8, CHR 0x8F]"
definition warning_sign :: string where
  "warning_sign = [CHR 0xE2, CHR 0x9A, CHR 0xA0, CHR 0xEF, CHR 0xB8, CHR 0x8F]"
definition open_lock :: string where "open_lock = [CHR 0xF0, CHR 0x9F, CHR 0x94, CHR 0x93]"
definition police_light :: string where "police_light = [CHR 0xF0, CHR 0x9F, CHR 0x9A, CHR 0xA8]"
definition collision :: string where "collision = [CHR 0xF0, CHR 0x9F, CHR 0x92, CHR 0xA5]"

definition HIGH_GAS :: string where
  "HIGH_GAS = warning_sign @ '' High gas usage (>500k)''"

definition NEW_APPROVALS :: string where
  "NEW_APPROVALS = open_lock @ '' New token approvals detected''"

text \<open>
  Risk detection, the list \<^verbatim>\<open>risks\<close> of the handler:
  \<^verbatim>\<open>
  risks = []
  if result.get("gas_used", 0) > 500000:
      risks.append("... High gas usage (>500k)")
  if "approvals" in result:
      risks.append("... New token approvals detected")
  \<close>
\<close>

definition risks :: "pyval \<Rightarrow> exn + string list" where
  "risks result =
     bnd (py_get result ''gas_used'' (PInt 0)) (\<lambda>gas.
     bnd (py_gt gas 500000) (\<lambda>high.
     bnd (py_in ''approvals'' result) (\<lambda>approved.
     Inr ((if high then [HIGH_GAS] else []) @ (if approved then [NEW_APPROVALS] else [])))))"

text \<open>\<^verbatim>\<open>for risk in risks: st.warning(risk)\<close>.\<close>

fun warn_all :: "string list \<Rightarrow> unit action" where
  "warn_all [] s = (Inr (), s)"
| "warn_all (risk # rest) s = warn_all rest (s\<lparr>ui := ui s @ [StWarning [Lit risk]]\<rparr>)"

text \<open>
  The body of \<^verbatim>\<open>for i, transfer in enumerate(nft_transfers[:3])\<close>, from item \<open>i\<close> on:
  fetch the image of the transfer, show it if there is one, and caption it.
\<close>

fun nft_loop :: "env \<Rightarrow> rat \<Rightarrow> string \<Rightarrow> nat \<Rightarrow> pyval list \<Rightarrow> unit action" where
  "nft_loop env now api_key i [] s = (Inr (), s)"
| "nft_loop env now api_key i (transfer # rest) s =
     (case
        seq (lift (py_getitem transfer ''contract_address'')) (\<lambda>contract_address.
        seq (lift (py_getitem transfer ''token_id'')) (\<lambda>token_id.
        seq (get_nft_image env now api_key contract_address token_id) (\<lambda>img.
        seq (case img of Some im \<Rightarrow> st (InColumn i (StImage im 100)) | None \<Rightarrow> ret ()) (\<lambda>_.
        seq (lift (py_getitem transfer ''token_id'')) (\<lambda>token_id'.
        st (InColumn i (StCaption [Lit ''Token #'', Fmt token_id']))))))) s
      of (Inl e, s') \<Rightarrow> (Inl e, s')
       | (Inr _, s') \<Rightarrow> nft_loop env now api_key (Suc i) rest s')"

text \<open>
  The four parts of the \<^verbatim>\<open>else\<close> branch of the handler, for a result without an
  \<^verbatim>\<open>error\<close>: basic info, balance changes, NFT previews, risk detection.
\<close>

definition basic_info :: "pyval \<Rightarrow> unit action" where
  "basic_info result =
     seq (st (StColumns 2)) (\<lambda>_.
     seq (lift (py_get result ''success'' PNone)) (\<lambda>success.
     seq (st (InColumn 0 (StMetric ''Status''
            (PStr (if truthy success then check_mark @ '' Success''
                   else cross_mark @ '' Reverted''))))) (\<lambda>_.
     seq (lift (py_get result ''gas_used'' (PStr ''N/A''))) (\<lambda>gas.
     st (InColumn 1 (StMetric ''Gas Used'' gas))))))"

definition balance_changes :: "pyval \<Rightarrow> unit action" where
  "balance_changes result =
     seq (lift (py_in ''balance_changes'' result)) (\<lambda>has_changes.
     if has_changes then
       seq (st (StSubheader (money_wings @ '' Balance Changes''))) (\<lambda>_.
       seq (lift (py_getitem result ''balance_changes'')) (\<lambda>changes.
       st (StDataframe changes)))
     else ret ())"

text \<open>Nothing is shown when \<^verbatim>\<open>nft_transfers\<close> is missing or falsy.\<close>

definition nft_previews :: "env \<Rightarrow> rat \<Rightarrow> string \<Rightarrow> pyval \<Rightarrow> unit action" where
  "nft_previews env now api_key result =
     seq (lift (py_get result ''nft_transfers'' (PList []))) (\<lambda>nft_transfers.
     if truthy nft_transfers then
       seq (st (StSubheader (framed_picture @ '' NFT Transfers''))) (\<lambda>_.
       seq (st (StColumns 3)) (\<lambda>_.
       seq (lift (py_first3 nft_transfers)) (\<lambda>items.
       nft_loop env now api_key 0 items)))
     else ret ())"

definition risk_detection :: "pyval \<Rightarrow> unit action" where
  "risk_detection result =
     seq (lift (risks result)) (\<lambda>rs.
     if rs \<noteq> [] then
       seq (st (StSubheader (police_light @ '' Risks''))) (\<lambda>_. warn_all rs)
     else ret ())"

definition show_success :: "env \<Rightarrow> rat \<Rightarrow> string \<Rightarrow> pyval \<Rightarrow> unit action" where
  "show_success env now api_key result =
     seq (basic_info result) (\<lambda>_.
     seq (balance_changes result) (\<lambda>_.
     seq (nft_previews env now api_key result) (\<lambda>_.
     risk_detection result)))"

text \<open>The results section, from \<^verbatim>\<open>st.subheader("... Results")\<close> on.\<close>

definition show_result :: "env \<Rightarrow> rat \<Rightarrow> string \<Rightarrow> pyval \<Rightarrow> unit action" where
  "show_result env now api_key result =
     seq (st (StSubheader (bar_chart @ '' Results''))) (\<lambda>_.
     seq (lift (py_in ''error'' result)) (\<lambda>has_error.
     if has_error then
       seq (lift (py_getitem result ''error'')) (\<lambda>err.
       st (StError [Lit (cross_mark @ '' ''), Fmt err]))
     else show_success env now api_key result))"

text \<open>\<^verbatim>\<open>st.error("Transaction data must start with '0x'")\<close>.\<close>

definition prefix_error :: element where
  "prefix_error =
     StError [Lit (''Transaction data must start with '' @ [CHR 0x27] @ ''0x'' @ [CHR 0x27])]"

text \<open>
  The handler of the button, run when \<^verbatim>\<open>st.button\<close> returns true: the prefix check,
  then the \<^verbatim>\<open>try\<close> block around the simulation and its display.
\<close>

definition on_simulate :: "env \<Rightarrow> rat \<Rightarrow> string \<Rightarrow> string \<Rightarrow> string \<Rightarrow> unit action" where
  "on_simulate env now api_key chain raw_tx =
     (if \<not> startswith raw_tx ''0x'' then st prefix_error
      else
        try_except
          (seq (lift (chain_id_of chain)) (\<lambda>chain_id.
           seq (simulate_tx env now api_key raw_tx chain_id) (\<lambda>result.
           show_result env now api_key result)))
          (\<lambda>e. st (StError [Lit (collision @ '' API Error: ''), FmtExn e])))"

text \<open>
  \<^verbatim>\<open>st.button("... Simulate", disabled=not (api_key and raw_tx))\<close>: a disabled button
  cannot be pressed, so the call returns true only for a press of an enabled button.
\<close>

definition button :: "bool \<Rightarrow> bool \<Rightarrow> bool" where
  "button pressed disabled = (pressed \<and> \<not> disabled)"

section \<open>One run of the script\<close>

text \<open>
  The inputs of a run are the values of the widgets: the API key, the chain selected,
  the two text areas, and whether the button was pressed.
\<close>

record inputs =
  api_key_in :: string
  chain_in :: string
  raw_tx_in :: string
  abi_json_in :: string
  pressed_in :: bool

definition script :: "env \<Rightarrow> rat \<Rightarrow> inputs \<Rightarrow> unit action" where
  "script env now inp =
     seq (st (StTitle (crystal_ball @ '' Tx Simulator Pro''))) (\<lambda>_.
     seq (st (StMarkdown ''Simulate EVM transactions before executing them.'')) (\<lambda>_.
     seq (st (StSubheader ''Settings'')) (\<lambda>_.
     seq (abi_tab env (raw_tx_in inp) (abi_json_in inp)) (\<lambda>_.
     seq (if button (pressed_in inp) (\<not> (api_key_in inp \<noteq> [] \<and> raw_tx_in inp \<noteq> []))
          then on_simulate env now (api_key_in inp) (chain_in inp) (raw_tx_in inp)
          else ret ()) (\<lambda>_.
     seq (st (StMarkdown ''---'')) (\<lambda>_.
     st (StCaption [Lit ''Uses Dune SIM API | Rate limits apply''])))))))"

section \<open>Notions used in the statements\<close>

text \<open>The request \<^verbatim>\<open>simulate_tx\<close> sends for its three arguments.\<close>

abbreviation simulate_request :: "string \<Rightarrow> string \<Rightarrow> int \<Rightarrow> request" where
  "simulate_request api_key tx_data chain_id \<equiv>
     Post DUNE_API_URL [(''Authorization'', [Lit ''Bearer '', Fmt (PStr api_key)])]
       (PDict [(''transaction'', PDict [(''data'', PStr tx_data)]), (''chain_id'', PInt chain_id)])"

text \<open>
  \<open>fetched_for api_key c transfer\<close>: the call \<open>c\<close> is the call of \<^verbatim>\<open>get_nft_image\<close>
  the loop makes for the entry \<open>transfer\<close>.
\<close>

definition fetched_for :: "string \<Rightarrow> call \<Rightarrow> pyval \<Rightarrow> bool" where
  "fetched_for api_key c transfer =
     (case (py_getitem transfer ''contract_address'', py_getitem transfer ''token_id'') of
        (Inr a, Inr t) \<Rightarrow> c = GetNftImage api_key a t
      | _ \<Rightarrow> False)"

text \<open>Calls of \<^verbatim>\<open>simulate_tx\<close> with the same arguments at the times of a list, in order.\<close>

fun repeat_simulate ::
  "env \<Rightarrow> string \<Rightarrow> string \<Rightarrow> int \<Rightarrow> rat list \<Rightarrow> state \<Rightarrow> (exn + pyval) list \<times> state" where
  "repeat_simulate env k tx c [] s = ([], s)"
| "repeat_simulate env k tx c (t # ts) s =
     (case simulate_tx env t k tx c s of
        (r, s') \<Rightarrow> (case repeat_simulate env k tx c ts s' of (rs, s'') \<Rightarrow> (r # rs, s'')))"

subsection \<open>An example environment\<close>

text \<open>
  A start state with an empty page, nothing sent and nothing cached, and an environment
  for the examples: a parser that knows four texts, a contract factory that accepts a
  list, a decoder that knows one call of one ABI and finds no function for any other call
  data, a simulation server with a fixed answer, an image server without images.
\<close>

definition fresh :: state where
  "fresh = \<lparr>ui = [], net = [], sim_cache = [], img_cache = [], calls = []\<rparr>"

definition erc20_abi_text :: string where
  \<open>erc20_abi_text =
     ''[{"type": "function", "name": "transfer", "inputs": [{"name": "to", "type": "address"}, {"name": "value", "type": "uint256"}]}]''\<close>

definition erc20_abi :: pyval where
  "erc20_abi =
     PList [PDict [(''type'', PStr ''function''), (''name'', PStr ''transfer''),
                   (''inputs'', PList [PDict [(''name'', PStr ''to''), (''type'', PStr ''address'')],
                                      PDict [(''name'', PStr ''value''), (''type'', PStr ''uint256'')]])]]"

definition transfer_call :: string where
  "transfer_call =
     ''0xa9059cbb'' @
     ''000000000000000000000000000000000000000000000000000000000000dead'' @
     ''0000000000000000000000000000000000000000000000000000000000000064''"

definition unauthorized_body :: string where
  \<open>unauthorized_body = ''{"error": "unauthorized"}''\<close>

definition success_body :: string where
  \<open>success_body = ''{"success": true, "gas_used": 21000}''\<close>

definition example_json :: "string \<Rightarrow> exn + pyval" where
  "example_json text =
     (if text = ''[]'' then Inr (PList [])
      else if text = erc20_abi_text then Inr erc20_abi
      else if text = unauthorized_body then Inr (PDict [(''error'', PStr ''unauthorized'')])
      else if text = success_body
        then Inr (PDict [(''success'', PBool True), (''gas_used'', PInt 21000)])
      else Inl (LibraryError ''Expecting value''))"

definition example_env :: "exn + response \<Rightarrow> env" where
  "example_env answer =
     \<lparr>json_loads = example_json,
      eth_contract = (\<lambda>abi. case abi of PList fs \<Rightarrow> Inr (Contract abi)
                                | _ \<Rightarrow> Inl (LibraryError ''The ABI is not a list'')),
      decode_function_input = (\<lambda>c data.
        if c = Contract erc20_abi \<and> data = transfer_call
        then Inr (ContractFunction ''transfer'',
                  [(''to'', PStr ''0x000000000000000000000000000000000000dEaD''),
                   (''value'', PInt 100)])
        else Inl (LibraryError ''Could not find any function with matching selector'')),
      requests_post = (\<lambda>sent req. answer),
      requests_get = (\<lambda>sent req. Inr \<lparr>status_code = 404, content = []\<rparr>),
      image_open = (\<lambda>bytes. Inr (Image bytes))\<rparr>"

text \<open>A result with four NFT transfers, numbered 1 to 4.\<close>

definition example_transfer :: "int \<Rightarrow> pyval" where
  "example_transfer i = PDict [(''contract_address'', PStr ''0xabc''), (''token_id'', PInt i)]"

definition example_nft_result :: pyval where
  "example_nft_result =
     PDict [(''success'', PBool True),
            (''nft_transfers'', PList (map example_transfer [1, 2, 3, 4]))]"

section \<open>Basic facts\<close>

lemma st_frame: "\<exists>r els. st el s = (r, s\<lparr>ui := ui s @ els\<rparr>)"
  unfolding st_def by blast

lemma lift_frame: "\<exists>r els. lift x s = (r, s\<lparr>ui := ui s @ els\<rparr>)"
proof -
  have "lift x s = (x, s\<lparr>ui := ui s @ []\<rparr>)" by (simp add: lift_def)
  then show ?thesis by blast
qed

lemma ret_frame: "\<exists>r els. ret x s = (r, s\<lparr>ui := ui s @ els\<rparr>)"
proof -
  have "ret x s = (Inr x, s\<lparr>ui := ui s @ []\<rparr>)" by (simp add: ret_def)
  then show ?thesis by blast
qed

text \<open>Two actions that only add to the page, run in sequence, only add to the page.\<close>

lemma seq_frame:
  assumes m: "\<And>s. \<exists>r els. m s = (r, s\<lparr>ui := ui s @ els\<rparr>)"
    and f: "\<And>x s. \<exists>r els. f x s = (r, s\<lparr>ui := ui s @ els\<rparr>)"
  shows "\<exists>r els. seq m f s = (r, s\<lparr>ui := ui s @ els\<rparr>)"
proof -
  from m obtain r1 e1 where m1: "m s = (r1, s\<lparr>ui := ui s @ e1\<rparr>)" by blast
  show ?thesis
  proof (cases r1)
    case (Inl e)
    with m1 have "seq m f s = (Inl e, s\<lparr>ui := ui s @ e1\<rparr>)" by (simp add: seq_def)
    then show ?thesis by blast
  next
    case (Inr x)
    from f obtain r2 e2 where
      "f x (s\<lparr>ui := ui s @ e1\<rparr>) = (r2, s\<lparr>ui := ui s @ e1\<rparr>\<lparr>ui := ui (s\<lparr>ui := ui s @ e1\<rparr>) @ e2\<rparr>)"
      by blast
    with m1 Inr have "seq m f s = (r2, s\<lparr>ui := ui s @ (e1 @ e2)\<rparr>)" by (simp add: seq_def)
    then show ?thesis by blast
  qed
qed

text \<open>The example environment at the inputs of the examples.\<close>

lemma example_parses:
  "json_loads (example_env answer) erc20_abi_text = Inr erc20_abi"
  "json_loads (example_env answer) unauthorized_body = Inr (PDict [(''error'', PStr ''unauthorized'')])"
  "json_loads (example_env answer) success_body =
     Inr (PDict [(''success'', PBool True), (''gas_used'', PInt 21000)])"
  by (simp_all add: example_env_def example_json_def erc20_abi_text_def unauthorized_body_def
      success_body_def)

lemma example_contract:
  "eth_contract (example_env answer) erc20_abi = Inr (Contract erc20_abi)"
  by (simp add: example_env_def erc20_abi_def)

lemma example_decodes:
  "decode_function_input (example_env answer) (Contract erc20_abi) transfer_call =
     Inr (ContractFunction ''transfer'',
          [(''to'', PStr ''0x000000000000000000000000000000000000dEaD''), (''value'', PInt 100)])"
  "data \<noteq> transfer_call \<Longrightarrow>
   decode_function_input (example_env answer) c data =
     Inl (LibraryError ''Could not find any function with matching selector'')"
  by (simp_all add: example_env_def)

lemma example_short_calls:
  "''0xa9'' \<noteq> transfer_call" "butlast transfer_call \<noteq> transfer_call"
  by (simp_all add: transfer_call_def)

lemma example_abi_given: "erc20_abi_text \<noteq> []"
  by (simp add: erc20_abi_text_def)

section \<open>The ABI decoder: failure, passthrough, and the shape of the result\<close>

lemma decode_body_fails_iff:
  "decode_body env raw_tx a = Inl e \<longleftrightarrow>
     json_loads env a = Inl e \<or>
     (\<exists>abi. json_loads env a = Inr abi \<and>
        (eth_contract env abi = Inl e \<or>
         (\<exists>c. eth_contract env abi = Inr c \<and> decode_function_input env c raw_tx = Inl e)))"
  by (auto simp: decode_body_def bnd_def split: sum.splits prod.splits)

lemma decode_body_dict:
  "decode_body env raw_tx a = Inr v \<Longrightarrow>
   \<exists>f ps. v = PDict [(''function'', PStr f), (''params'', PDict ps)]"
  by (auto simp: decode_body_def bnd_def split: sum.splits prod.splits)

text \<open>The function by cases: what it returns and what it adds to the page.\<close>

lemma decode_cases:
  "decode_abi_if_provided env raw_tx abi_json s =
     (case abi_json of
        None \<Rightarrow> (Inr (PStr raw_tx), s)
      | Some a \<Rightarrow>
          if a = [] then (Inr (PStr raw_tx), s)
          else (case decode_body env raw_tx a of
                  Inr v \<Rightarrow> (Inr v, s)
                | Inl e \<Rightarrow> (Inr (PStr raw_tx),
                     s\<lparr>ui := ui s @ [StWarning [Lit ''ABI decoding failed: '', FmtExn e]]\<rparr>)))"
  by (simp add: decode_abi_if_provided_def try_except_def lift_def seq_def st_def ret_def
      split: option.splits sum.splits)

text \<open>
  C1. For every call-data string and every non-empty ABI string, the decoder returns:
  it never raises. Whenever a step of the decoding raises (the JSON parser on the ABI
  text, the contract factory on the parsed ABI, or the call-data decoder, which is the
  step that fails when no selector matches and when the call data is malformed or shorter
  than the four bytes of a selector), the function returns the call data as it was given
  and adds one warning, carrying the exception, to the page.
\<close>

theorem decode_never_raises:
  "a \<noteq> [] \<Longrightarrow>
   (\<exists>v s'. decode_abi_if_provided env raw_tx (Some a) s = (Inr v, s')) \<and>
   (\<forall>e. json_loads env a = Inl e \<or>
        (\<exists>abi. json_loads env a = Inr abi \<and>
           (eth_contract env abi = Inl e \<or>
            (\<exists>c. eth_contract env abi = Inr c \<and> decode_function_input env c raw_tx = Inl e)))
      \<longrightarrow> decode_abi_if_provided env raw_tx (Some a) s =
            (Inr (PStr raw_tx),
             s\<lparr>ui := ui s @ [StWarning [Lit ''ABI decoding failed: '', FmtExn e]]\<rparr>))"
proof (intro conjI allI impI)
  assume a: "a \<noteq> []"
  show "\<exists>v s'. decode_abi_if_provided env raw_tx (Some a) s = (Inr v, s')"
    using a by (cases "decode_body env raw_tx a") (simp_all add: decode_cases)
next
  fix e
  assume a: "a \<noteq> []"
    and f: "json_loads env a = Inl e \<or>
        (\<exists>abi. json_loads env a = Inr abi \<and>
           (eth_contract env abi = Inl e \<or>
            (\<exists>c. eth_contract env abi = Inr c \<and> decode_function_input env c raw_tx = Inl e)))"
  from f have "decode_body env raw_tx a = Inl e"
    by (simp only: decode_body_fails_iff)
  with a show "decode_abi_if_provided env raw_tx (Some a) s =
            (Inr (PStr raw_tx),
             s\<lparr>ui := ui s @ [StWarning [Lit ''ABI decoding failed: '', FmtExn e]]\<rparr>)"
    by (simp add: decode_cases)
qed

text \<open>
  Call data of a single byte, with the ERC-20 ABI: the decoder of the example finds no
  function, and the call data comes back with the warning.
\<close>

theorem decode_never_raises_witness:
  "erc20_abi_text \<noteq> [] \<and>
   decode_abi_if_provided (example_env (Inl TypeError)) ''0xa9'' (Some erc20_abi_text) fresh =
     (Inr (PStr ''0xa9''),
      fresh\<lparr>ui := ui fresh @
        [StWarning [Lit ''ABI decoding failed: '',
           FmtExn (LibraryError ''Could not find any function with matching selector'')]]\<rparr>)"
proof -
  let ?env = "example_env (Inl TypeError)"
  let ?e = "LibraryError ''Could not find any function with matching selector''"
  have ne: "erc20_abi_text \<noteq> []" by (rule example_abi_given)
  have fails: "json_loads ?env erc20_abi_text = Inl ?e \<or>
        (\<exists>abi. json_loads ?env erc20_abi_text = Inr abi \<and>
           (eth_contract ?env abi = Inl ?e \<or>
            (\<exists>c. eth_contract ?env abi = Inr c \<and> decode_function_input ?env c ''0xa9'' = Inl ?e)))"
    by (simp add: example_parses example_contract example_decodes example_short_calls)
  from decode_never_raises[OF ne, of ?env "''0xa9''" fresh] fails ne show ?thesis by blast
qed

text \<open>
  C5. When the ABI input is absent or empty the decoder returns the call data as it was
  given and leaves the state as it was: nothing is parsed, decoded, shown or sent, whatever
  the libraries would have answered.
\<close>

theorem decode_empty_abi_passthrough:
  "decode_abi_if_provided env raw_tx None s = (Inr (PStr raw_tx), s) \<and>
   decode_abi_if_provided env raw_tx (Some []) s = (Inr (PStr raw_tx), s)"
  by (simp add: decode_cases)

theorem decode_empty_abi_passthrough_witness:
  "decode_abi_if_provided (example_env (Inl TypeError)) transfer_call None fresh =
     (Inr (PStr transfer_call), fresh) \<and>
   decode_abi_if_provided (example_env (Inl TypeError)) transfer_call (Some []) fresh =
     (Inr (PStr transfer_call), fresh)"
  by (rule decode_empty_abi_passthrough)

text \<open>
  C9. The decoder always returns, and what it returns is either the call data as given,
  a \<^verbatim>\<open>str\<close>, or a dict with exactly the keys \<^verbatim>\<open>function\<close> and \<^verbatim>\<open>params\<close>. The test
  the caller applies, \<^verbatim>\<open>isinstance(decoded, dict)\<close>, holds exactly when an ABI was given
  and the decoding succeeded with that value, so a failed decoding is never taken for a
  successful one.
\<close>

theorem decode_result_tagged:
  "\<exists>v s'. decode_abi_if_provided env raw_tx abi_json s = (Inr v, s') \<and>
      (v = PStr raw_tx \<or> (\<exists>f ps. v = PDict [(''function'', PStr f), (''params'', PDict ps)])) \<and>
      (is_dict v \<longleftrightarrow> (\<exists>a. abi_json = Some a \<and> a \<noteq> [] \<and> decode_body env raw_tx a = Inr v))"
proof (cases abi_json)
  case None
  then show ?thesis by (simp add: decode_cases)
next
  case (Some a)
  show ?thesis
  proof (cases "a = []")
    case True
    with Some show ?thesis by (simp add: decode_cases)
  next
    case False
    show ?thesis
    proof (cases "decode_body env raw_tx a")
      case (Inl e)
      with Some False show ?thesis by (simp add: decode_cases)
    next
      case (Inr v)
      from decode_body_dict[OF Inr] obtain f ps where
        "v = PDict [(''function'', PStr f), (''params'', PDict ps)]" by blast
      with Some False Inr show ?thesis by (simp add: decode_cases)
    qed
  qed
qed

text \<open>The ERC-20 transfer of the example decodes to a dict; the same call without its last digit does not.\<close>

theorem decode_result_tagged_witness:
  "(\<exists>v s'. decode_abi_if_provided (example_env (Inl TypeError)) transfer_call (Some erc20_abi_text) fresh
             = (Inr v, s') \<and>
      (v = PStr transfer_call \<or> (\<exists>f ps. v = PDict [(''function'', PStr f), (''params'', PDict ps)])) \<and>
      (is_dict v \<longleftrightarrow> (\<exists>a. Some erc20_abi_text = Some a \<and> a \<noteq> [] \<and>
          decode_body (example_env (Inl TypeError)) transfer_call a = Inr v))) \<and>
   decode_abi_if_provided (example_env (Inl TypeError)) transfer_call (Some erc20_abi_text) fresh =
     (Inr (PDict [(''function'', PStr ''transfer''),
                  (''params'', PDict [(''to'', PStr ''0x000000000000000000000000000000000000dEaD''),
                                      (''value'', PInt 100)])]), fresh) \<and>
   fst (decode_abi_if_provided (example_env (Inl TypeError)) (butlast transfer_call)
          (Some erc20_abi_text) fresh) = Inr (PStr (butlast transfer_call))"
proof -
  have "decode_abi_if_provided (example_env (Inl TypeError)) transfer_call (Some erc20_abi_text) fresh =
     (Inr (PDict [(''function'', PStr ''transfer''),
                  (''params'', PDict [(''to'', PStr ''0x000000000000000000000000000000000000dEaD''),
                                      (''value'', PInt 100)])]), fresh)"
    by (simp add: decode_cases decode_body_def bnd_def example_parses example_contract
        example_decodes example_abi_given)
  moreover have "fst (decode_abi_if_provided (example_env (Inl TypeError)) (butlast transfer_call)
          (Some erc20_abi_text) fresh) = Inr (PStr (butlast transfer_call))"
    by (simp add: decode_cases decode_body_def bnd_def example_parses example_contract
        example_decodes example_short_calls example_abi_given)
  ultimately show ?thesis
    using decode_result_tagged[of "example_env (Inl TypeError)" transfer_call
        "Some erc20_abi_text" fresh]
    by blast
qed

section \<open>The risk classifier\<close>

text \<open>The classifier on a dict, by the two fields it reads.\<close>

lemma risks_dict:
  "risks (PDict kvs) =
     bnd (py_gt (case map_of kvs ''gas_used'' of None \<Rightarrow> PInt 0 | Some v \<Rightarrow> v) 500000) (\<lambda>high.
       Inr ((if high then [HIGH_GAS] else []) @
            (if map_of kvs ''approvals'' \<noteq> None then [NEW_APPROVALS] else [])))"
  by (simp add: risks_def bnd_def)

lemma risk_texts_differ: "HIGH_GAS \<noteq> NEW_APPROVALS"
  by (simp add: HIGH_GAS_def NEW_APPROVALS_def warning_sign_def open_lock_def)

text \<open>Every risk of the list is shown as one warning, in order.\<close>

lemma warn_all_state:
  "warn_all rs s = (Inr (), s\<lparr>ui := ui s @ map (\<lambda>r. StWarning [Lit r]) rs\<rparr>)"
  by (induction rs arbitrary: s) simp_all

text \<open>What the classifier lists is what the page shows, under the header of the risks.\<close>

lemma risk_detection_shows:
  "risks result = Inr rs \<Longrightarrow>
   risk_detection result s =
     (Inr (), s\<lparr>ui := ui s @ (if rs = [] then []
                              else StSubheader (police_light @ '' Risks'') #
                                   map (\<lambda>r. StWarning [Lit r]) rs)\<rparr>)"
  by (simp add: risk_detection_def seq_def lift_def st_def ret_def warn_all_state)

text \<open>
  C3. For a result whose \<^verbatim>\<open>gas_used\<close> is a number, an integer or a finite float, the
  classifier returns its list of risks, and the high-gas warning is in the list exactly
  when the number is greater than 500000. So 500001 gives the warning and 500000 does not.
\<close>

theorem high_gas_iff:
  "(map_of kvs ''gas_used'' = Some (PInt n) \<longrightarrow>
      (\<exists>rs. risks (PDict kvs) = Inr rs \<and> (HIGH_GAS \<in> set rs \<longleftrightarrow> 500000 < n))) \<and>
   (map_of kvs ''gas_used'' = Some (PFloat (Finite q)) \<longrightarrow>
      (\<exists>rs. risks (PDict kvs) = Inr rs \<and> (HIGH_GAS \<in> set rs \<longleftrightarrow> 500000 < q)))"
  by (simp add: risks_dict bnd_def risk_texts_differ)

theorem high_gas_iff_witness:
  "(\<exists>rs. risks (PDict [(''success'', PBool True), (''gas_used'', PInt 500001)]) = Inr rs \<and>
         HIGH_GAS \<in> set rs) \<and>
   (\<exists>rs. risks (PDict [(''success'', PBool True), (''gas_used'', PInt 500000)]) = Inr rs \<and>
         HIGH_GAS \<notin> set rs)"
  using high_gas_iff[of "[(''success'', PBool True), (''gas_used'', PInt 500001)]" 500001 0]
    high_gas_iff[of "[(''success'', PBool True), (''gas_used'', PInt 500000)]" 500000 0]
  by simp

text \<open>
  C4. Whenever the classifier returns its list for a result, the approvals warning is in
  the list exactly when the result has the key \<^verbatim>\<open>approvals\<close>, whatever the value under
  it; and the classifier does return a list for every result whose \<^verbatim>\<open>gas_used\<close> is
  missing or an integer.
\<close>

theorem approvals_iff:
  "(\<forall>rs. risks (PDict kvs) = Inr rs \<longrightarrow>
       (NEW_APPROVALS \<in> set rs \<longleftrightarrow> map_of kvs ''approvals'' \<noteq> None)) \<and>
   (map_of kvs ''gas_used'' = None \<or> (\<exists>n. map_of kvs ''gas_used'' = Some (PInt n))
      \<longrightarrow> (\<exists>rs. risks (PDict kvs) = Inr rs))"
  using risk_texts_differ
  by (auto simp: risks_dict bnd_def split: sum.splits)

text \<open>An empty \<^verbatim>\<open>approvals\<close> object gives the warning, and so does \<^verbatim>\<open>null\<close>.\<close>

theorem approvals_iff_witness:
  "(\<exists>rs. risks (PDict [(''gas_used'', PInt 21000), (''approvals'', PDict [])]) = Inr rs \<and>
         NEW_APPROVALS \<in> set rs) \<and>
   (\<exists>rs. risks (PDict [(''approvals'', PNone)]) = Inr rs \<and> NEW_APPROVALS \<in> set rs)"
proof -
  have present: "\<exists>rs. risks (PDict kvs) = Inr rs \<and> NEW_APPROVALS \<in> set rs"
    if "map_of kvs ''gas_used'' = None \<or> (\<exists>n. map_of kvs ''gas_used'' = Some (PInt n))"
      and "map_of kvs ''approvals'' \<noteq> None" for kvs
  proof -
    from approvals_iff[of kvs] that(1) obtain rs where rs: "risks (PDict kvs) = Inr rs"
      by blast
    with approvals_iff[of kvs] that(2) have "NEW_APPROVALS \<in> set rs" by blast
    with rs show ?thesis by blast
  qed
  have "\<exists>rs. risks (PDict [(''gas_used'', PInt 21000), (''approvals'', PDict [])]) = Inr rs \<and>
         NEW_APPROVALS \<in> set rs"
    by (rule present) simp_all
  moreover have "\<exists>rs. risks (PDict [(''approvals'', PNone)]) = Inr rs \<and> NEW_APPROVALS \<in> set rs"
    by (rule present) simp_all
  ultimately show ?thesis by blast
qed

text \<open>
  C10. For a result without the key \<^verbatim>\<open>gas_used\<close> the classifier gives what it gives for
  the same result with \<^verbatim>\<open>gas_used\<close> set to 0, and its list never holds the high-gas
  warning.
\<close>

theorem missing_gas_is_zero:
  "map_of kvs ''gas_used'' = None \<Longrightarrow>
   risks (PDict kvs) = risks (PDict ((''gas_used'', PInt 0) # kvs)) \<and>
   (\<exists>rs. risks (PDict kvs) = Inr rs \<and> HIGH_GAS \<notin> set rs)"
  by (simp add: risks_dict bnd_def risk_texts_differ)

theorem missing_gas_is_zero_witness:
  "map_of [(''success'', PBool True), (''approvals'', PDict [])] ''gas_used'' = None \<and>
   risks (PDict [(''success'', PBool True), (''approvals'', PDict [])]) = Inr [NEW_APPROVALS] \<and>
   HIGH_GAS \<notin> set [NEW_APPROVALS]"
proof -
  have h: "map_of [(''success'', PBool True), (''approvals'', PDict [])] ''gas_used'' = None"
    by simp
  have r: "risks (PDict [(''success'', PBool True), (''approvals'', PDict [])]) = Inr [NEW_APPROVALS]"
    by (simp add: risks_dict bnd_def)
  from missing_gas_is_zero[OF h] r h show ?thesis by simp
qed

section \<open>The prefix check\<close>

lemma abi_tab_frame: "\<exists>els. abi_tab env raw_tx abi_json s = (Inr (), s\<lparr>ui := ui s @ els\<rparr>)"
proof (cases "abi_json = []")
  case True
  have "abi_tab env raw_tx abi_json s = (Inr (), s\<lparr>ui := ui s @ []\<rparr>)"
    using True by (simp add: abi_tab_def ret_def)
  then show ?thesis by blast
next
  case False
  show ?thesis
  proof (cases "decode_body env raw_tx abi_json")
    case (Inl e)
    with False have "abi_tab env raw_tx abi_json s =
      (Inr (), s\<lparr>ui := ui s @ [StWarning [Lit ''ABI decoding failed: '', FmtExn e]]\<rparr>)"
      by (simp add: abi_tab_def decode_cases seq_def ret_def)
    then show ?thesis by blast
  next
    case (Inr v)
    from decode_body_dict[OF Inr] have "is_dict v" by auto
    with False Inr have "abi_tab env raw_tx abi_json s = (Inr (), s\<lparr>ui := ui s @ [StJson v]\<rparr>)"
      by (simp add: abi_tab_def decode_cases seq_def st_def)
    then show ?thesis by blast
  qed
qed

lemma on_simulate_bad_prefix:
  "\<not> startswith raw_tx ''0x'' \<Longrightarrow>
   on_simulate env now api_key chain raw_tx s = (Inr (), s\<lparr>ui := ui s @ [prefix_error]\<rparr>)"
  by (simp add: on_simulate_def st_def)

text \<open>
  C6. In a run of the script with call data that does not start with \<^verbatim>\<open>0x\<close>, the state
  changes in the page only: no request is sent, neither cached function is called, and
  no cache is written. When the call data was submitted, that is, the button was pressed
  while enabled (an API key and call data present), the page shows the error about the
  prefix.
\<close>

theorem missing_prefix_reported:
  "\<not> startswith (raw_tx_in inp) ''0x'' \<Longrightarrow>
   \<exists>els. script env now inp s = (Inr (), s\<lparr>ui := ui s @ els\<rparr>) \<and>
         (pressed_in inp \<and> api_key_in inp \<noteq> [] \<and> raw_tx_in inp \<noteq> [] \<longrightarrow> prefix_error \<in> set els)"
proof -
  assume bad: "\<not> startswith (raw_tx_in inp) ''0x''"
  define head where "head = [StTitle (crystal_ball @ '' Tx Simulator Pro''),
     StMarkdown ''Simulate EVM transactions before executing them.'', StSubheader ''Settings'']"
  define tail where
    "tail = [StMarkdown ''---'', StCaption [Lit ''Uses Dune SIM API | Rate limits apply'']]"
  define s1 where "s1 = s\<lparr>ui := ui s @ head\<rparr>"
  obtain e2 where tab:
    "abi_tab env (raw_tx_in inp) (abi_json_in inp) s1 = (Inr (), s1\<lparr>ui := ui s1 @ e2\<rparr>)"
    using abi_tab_frame by blast
  define s2 where "s2 = s1\<lparr>ui := ui s1 @ e2\<rparr>"
  have start: "script env now inp s =
      seq (if button (pressed_in inp) (\<not> (api_key_in inp \<noteq> [] \<and> raw_tx_in inp \<noteq> []))
           then on_simulate env now (api_key_in inp) (chain_in inp) (raw_tx_in inp)
           else ret ()) (\<lambda>_.
      seq (st (StMarkdown ''---'')) (\<lambda>_.
      st (StCaption [Lit ''Uses Dune SIM API | Rate limits apply'']))) s2"
    using tab unfolding s2_def s1_def head_def script_def
    by (simp add: seq_def st_def)
  show ?thesis
  proof (cases "button (pressed_in inp) (\<not> (api_key_in inp \<noteq> [] \<and> raw_tx_in inp \<noteq> []))")
    case True
    have "script env now inp s = (Inr (), s\<lparr>ui := ui s @ (head @ e2 @ prefix_error # tail)\<rparr>)"
      unfolding start using True bad
      by (simp add: on_simulate_bad_prefix seq_def st_def s2_def s1_def tail_def)
    then show ?thesis by (intro exI[of _ "head @ e2 @ prefix_error # tail"]) simp
  next
    case False
    have "script env now inp s = (Inr (), s\<lparr>ui := ui s @ (head @ e2 @ tail)\<rparr>)"
      unfolding start using False
      by (simp add: ret_def seq_def st_def s2_def s1_def tail_def)
    moreover have "\<not> (pressed_in inp \<and> api_key_in inp \<noteq> [] \<and> raw_tx_in inp \<noteq> [])"
      using False by (simp add: button_def)
    ultimately show ?thesis by (intro exI[of _ "head @ e2 @ tail"]) blast
  qed
qed

text \<open>The selector of the example without its prefix, submitted with a key.\<close>

theorem missing_prefix_reported_witness:
  "\<not> startswith ''a9059cbb'' ''0x'' \<and>
   (\<exists>els. script (example_env (Inl TypeError)) 0
            \<lparr>api_key_in = ''key'', chain_in = ''Ethereum'', raw_tx_in = ''a9059cbb'',
             abi_json_in = [], pressed_in = True\<rparr> fresh
          = (Inr (), fresh\<lparr>ui := ui fresh @ els\<rparr>) \<and> prefix_error \<in> set els)"
proof -
  have bad: "\<not> startswith ''a9059cbb'' ''0x''" by (simp add: startswith_def)
  then have "\<not> startswith (raw_tx_in \<lparr>api_key_in = ''key'', chain_in = ''Ethereum'',
      raw_tx_in = ''a9059cbb'', abi_json_in = [], pressed_in = True\<rparr>) ''0x''" by simp
  from missing_prefix_reported[OF this, of "example_env (Inl TypeError)" 0 fresh] bad
  show ?thesis by simp
qed

section \<open>The NFT previews\<close>

lemma get_nft_image_calls:
  "get_nft_image env now k a t s = (r, s') \<Longrightarrow> calls s' = calls s @ [GetNftImage k a t]"
  by (auto simp: get_nft_image_def get_nft_image_body_def Let_def seq_def http_get_def lift_def
        ret_def
      split: option.splits sum.splits prod.splits if_splits)

text \<open>
  The loop calls the fetcher for an initial stretch of its items, one call per item, in
  order: it stops early exactly when an item or a fetch raises.
\<close>

lemma nft_loop_calls:
  "nft_loop env now k i items s = (r, s') \<Longrightarrow>
   \<exists>cs. calls s' = calls s @ cs \<and> length cs \<le> length items \<and>
        list_all2 (fetched_for k) cs (take (length cs) items)"
proof (induction items arbitrary: i s r s')
  case Nil
  then show ?case by simp
next
  case (Cons transfer rest)
  show ?case
  proof (cases "py_getitem transfer ''contract_address''")
    case (Inl e)
    with Cons.prems show ?thesis by (simp add: seq_def lift_def)
  next
    case a: (Inr a)
    show ?thesis
    proof (cases "py_getitem transfer ''token_id''")
      case (Inl e)
      with a Cons.prems show ?thesis by (simp add: seq_def lift_def)
    next
      case t: (Inr t)
      obtain ri s1 where g: "get_nft_image env now k a t s = (ri, s1)"
        by (cases "get_nft_image env now k a t s")
      have c1: "calls s1 = calls s @ [GetNftImage k a t]"
        using g by (rule get_nft_image_calls)
      have ff: "fetched_for k (GetNftImage k a t) transfer"
        by (simp add: fetched_for_def a t)
      show ?thesis
      proof (cases ri)
        case (Inl e)
        with a t g Cons.prems have "s' = s1" by (simp add: seq_def lift_def)
        with c1 ff show ?thesis by simp
      next
        case (Inr img)
        define s2 where "s2 = snd ((case img of Some im \<Rightarrow> st (InColumn i (StImage im 100))
                                     | None \<Rightarrow> ret ()) s1)"
        define s3 where "s3 = s2\<lparr>ui := ui s2 @ [InColumn i (StCaption [Lit ''Token #'', Fmt t])]\<rparr>"
        have c3: "calls s3 = calls s1"
          by (simp add: s3_def s2_def st_def ret_def split: option.splits)
        from Inr a t g Cons.prems have again: "nft_loop env now k (Suc i) rest s3 = (r, s')"
          by (simp add: seq_def lift_def st_def ret_def s3_def s2_def split: option.splits)
        from Cons.IH[OF again] obtain cs where cs: "calls s' = calls s3 @ cs"
          "length cs \<le> length rest" "list_all2 (fetched_for k) cs (take (length cs) rest)"
          by blast
        have "calls s' = calls s @ (GetNftImage k a t # cs)"
          using cs(1) c3 c1 by simp
        moreover have "length (GetNftImage k a t # cs) \<le> length (transfer # rest)"
          using cs(2) by simp
        moreover have "list_all2 (fetched_for k) (GetNftImage k a t # cs)
            (take (length (GetNftImage k a t # cs)) (transfer # rest))"
          using cs(3) ff by simp
        ultimately show ?thesis by blast
      qed
    qed
  qed
qed

lemma nft_previews_calls:
  "nft_previews env now k result s = (r, s') \<Longrightarrow>
   \<exists>cs. calls s' = calls s @ cs \<and> length cs \<le> 3 \<and>
        (\<forall>xs. py_get result ''nft_transfers'' (PList []) = Inr (PList xs) \<longrightarrow>
              list_all2 (fetched_for k) cs (take (length cs) xs))"
proof -
  assume run: "nft_previews env now k result s = (r, s')"
  show ?thesis
  proof (cases "py_get result ''nft_transfers'' (PList [])")
    case (Inl e)
    with run have "s' = s" by (simp add: nft_previews_def seq_def lift_def)
    with Inl show ?thesis by simp
  next
    case v: (Inr v)
    show ?thesis
    proof (cases "truthy v")
      case False
      with v run have "s' = s" by (simp add: nft_previews_def seq_def lift_def ret_def)
      with v False show ?thesis by auto
    next
      case True
      define s1 where
        "s1 = s\<lparr>ui := ui s @ [StSubheader (framed_picture @ '' NFT Transfers''), StColumns 3]\<rparr>"
      show ?thesis
      proof (cases "py_first3 v")
        case (Inl e)
        with v True run have "s' = s1"
          by (simp add: nft_previews_def seq_def st_def lift_def s1_def)
        moreover have "\<And>xs. v \<noteq> PList xs" using Inl by auto
        ultimately show ?thesis using v by (simp add: s1_def)
      next
        case (Inr items)
        with v True run have loop: "nft_loop env now k 0 items s1 = (r, s')"
          by (simp add: nft_previews_def seq_def st_def lift_def s1_def)
        from nft_loop_calls[OF loop] obtain cs where cs: "calls s' = calls s1 @ cs"
          "length cs \<le> length items" "list_all2 (fetched_for k) cs (take (length cs) items)"
          by blast
        have len: "length items \<le> 3"
          using Inr by (cases v) auto
        have "\<forall>xs. v = PList xs \<longrightarrow> list_all2 (fetched_for k) cs (take (length cs) xs)"
        proof (intro allI impI)
          fix xs assume "v = PList xs"
          with Inr have "items = take 3 xs" by simp
          with cs(3) cs(2) len show "list_all2 (fetched_for k) cs (take (length cs) xs)"
            by (simp add: min_def)
        qed
        with cs(1) cs(2) len v show ?thesis by (auto simp: s1_def)
      qed
    qed
  qed
qed

text \<open>The other three parts of the display only add to the page.\<close>

lemma basic_info_frame: "\<exists>r els. basic_info result s = (r, s\<lparr>ui := ui s @ els\<rparr>)"
  unfolding basic_info_def
  by (intro seq_frame st_frame lift_frame)

lemma balance_changes_frame: "\<exists>r els. balance_changes result s = (r, s\<lparr>ui := ui s @ els\<rparr>)"
  unfolding balance_changes_def
  by (intro seq_frame lift_frame) (simp add: seq_frame st_frame lift_frame ret_frame)

lemma warn_all_frame: "\<exists>r els. warn_all rs s = (r, s\<lparr>ui := ui s @ els\<rparr>)"
  unfolding warn_all_state by blast

lemma risk_detection_frame: "\<exists>r els. risk_detection result s = (r, s\<lparr>ui := ui s @ els\<rparr>)"
  unfolding risk_detection_def
  by (intro seq_frame lift_frame) (simp add: seq_frame st_frame warn_all_frame ret_frame)

lemma show_success_calls:
  "show_success env now k result s = (r, s') \<Longrightarrow>
   \<exists>cs. calls s' = calls s @ cs \<and> length cs \<le> 3 \<and>
        (\<forall>xs. py_get result ''nft_transfers'' (PList []) = Inr (PList xs) \<longrightarrow>
              list_all2 (fetched_for k) cs (take (length cs) xs))"
proof -
  assume run: "show_success env now k result s = (r, s')"
  let ?P = "\<lambda>t. \<exists>cs. calls t = calls s @ cs \<and> length cs \<le> 3 \<and>
        (\<forall>xs. py_get result ''nft_transfers'' (PList []) = Inr (PList xs) \<longrightarrow>
              list_all2 (fetched_for k) cs (take (length cs) xs))"
  have P0: "?P t" if "calls t = calls s" for t :: state
    using that by simp
  obtain r1 e1 where b1: "basic_info result s = (r1, s\<lparr>ui := ui s @ e1\<rparr>)"
    using basic_info_frame by blast
  define s1 where "s1 = s\<lparr>ui := ui s @ e1\<rparr>"
  obtain r2 e2 where b2: "balance_changes result s1 = (r2, s1\<lparr>ui := ui s1 @ e2\<rparr>)"
    using balance_changes_frame by blast
  define s2 where "s2 = s1\<lparr>ui := ui s1 @ e2\<rparr>"
  obtain r3 s3 where b3: "nft_previews env now k result s2 = (r3, s3)"
    by (cases "nft_previews env now k result s2")
  obtain r4 e4 where b4: "risk_detection result s3 = (r4, s3\<lparr>ui := ui s3 @ e4\<rparr>)"
    using risk_detection_frame by blast
  have c1: "calls s1 = calls s" by (simp add: s1_def)
  have c2: "calls s2 = calls s" by (simp add: s2_def s1_def)
  from nft_previews_calls[OF b3] have P3: "?P s3" unfolding c2 .
  have P4: "?P (s3\<lparr>ui := ui s3 @ e4\<rparr>)" using P3 by simp
  show ?thesis
  proof (cases r1)
    case (Inl e)
    with run b1 have "s' = s1" by (simp add: show_success_def seq_def s1_def)
    with c1 P0 show ?thesis by blast
  next
    case i1: (Inr u1)
    show ?thesis
    proof (cases r2)
      case (Inl e)
      with run b1 b2 i1 have "s' = s2" by (simp add: show_success_def seq_def s1_def s2_def)
      with c2 P0 show ?thesis by blast
    next
      case i2: (Inr u2)
      show ?thesis
      proof (cases r3)
        case (Inl e)
        with run b1 b2 b3 i1 i2 have "s' = s3"
          by (simp add: show_success_def seq_def s1_def[symmetric] s2_def[symmetric])
        with P3 show ?thesis by blast
      next
        case i3: (Inr u3)
        with run b1 b2 b3 b4 i1 i2 have "s' = s3\<lparr>ui := ui s3 @ e4\<rparr>"
          by (simp add: show_success_def seq_def s1_def[symmetric] s2_def[symmetric])
        with P4 show ?thesis by blast
      qed
    qed
  qed
qed

text \<open>
  C8. Showing a result calls the image fetcher at most three times, whatever the result
  is. When \<^verbatim>\<open>nft_transfers\<close> is a list, the calls are, in order, the calls for an initial
  stretch of that list: the first call is for the first entry, the second for the second,
  the third for the third, and no call is for a later entry.
\<close>

theorem only_first_three_fetched:
  "show_result env now k result s = (r, s') \<Longrightarrow>
   \<exists>cs. calls s' = calls s @ cs \<and> length cs \<le> 3 \<and>
        (\<forall>xs. py_get result ''nft_transfers'' (PList []) = Inr (PList xs) \<longrightarrow>
              list_all2 (fetched_for k) cs (take (length cs) xs))"
proof -
  assume run: "show_result env now k result s = (r, s')"
  define s0 where "s0 = s\<lparr>ui := ui s @ [StSubheader (bar_chart @ '' Results'')]\<rparr>"
  have c0: "calls s0 = calls s" by (simp add: s0_def)
  show ?thesis
  proof (cases "py_in ''error'' result")
    case (Inl e)
    with run have "s' = s0" by (simp add: show_result_def seq_def st_def lift_def s0_def)
    with c0 show ?thesis by simp
  next
    case (Inr b)
    show ?thesis
    proof (cases b)
      case True
      have "calls s' = calls s0"
        using run Inr True
        by (cases "py_getitem result ''error''")
           (auto simp: show_result_def seq_def st_def lift_def s0_def)
      with c0 show ?thesis by simp
    next
      case False
      with run Inr have "show_success env now k result s0 = (r, s')"
        by (simp add: show_result_def seq_def st_def lift_def s0_def)
      from show_success_calls[OF this] c0 show ?thesis by simp
    qed
  qed
qed

text \<open>With four transfers the fetcher is called for the first three, and not for the fourth.\<close>

lemma example_nft_calls:
  "calls (snd (show_result (example_env (Inl TypeError)) 0 ''key'' example_nft_result fresh)) =
     [GetNftImage ''key'' (PStr ''0xabc'') (PInt 1),
      GetNftImage ''key'' (PStr ''0xabc'') (PInt 2),
      GetNftImage ''key'' (PStr ''0xabc'') (PInt 3)]"
  by (simp add: show_result_def show_success_def basic_info_def balance_changes_def
      nft_previews_def risk_detection_def risks_def bnd_def seq_def st_def lift_def ret_def
      example_nft_result_def example_transfer_def get_nft_image_def get_nft_image_body_def
      cache_lookup_def http_get_def example_env_def fresh_def Let_def)

theorem only_first_three_fetched_witness:
  "\<exists>cs. calls (snd (show_result (example_env (Inl TypeError)) 0 ''key'' example_nft_result fresh))
          = calls fresh @ cs \<and> length cs \<le> 3 \<and>
        list_all2 (fetched_for ''key'') cs (take (length cs) (map example_transfer [1, 2, 3, 4])) \<and>
        cs = map (\<lambda>i. GetNftImage ''key'' (PStr ''0xabc'') (PInt i)) [1, 2, 3]"
proof -
  let ?run = "show_result (example_env (Inl TypeError)) 0 ''key'' example_nft_result fresh"
  have "?run = (fst ?run, snd ?run)" by simp
  from only_first_three_fetched[OF this] obtain cs where
    cs: "calls (snd ?run) = calls fresh @ cs" "length cs \<le> 3"
      "\<forall>xs. py_get example_nft_result ''nft_transfers'' (PList []) = Inr (PList xs) \<longrightarrow>
            list_all2 (fetched_for ''key'') cs (take (length cs) xs)"
    by blast
  have "py_get example_nft_result ''nft_transfers'' (PList []) =
      Inr (PList (map example_transfer [1, 2, 3, 4]))"
    by (simp add: example_nft_result_def)
  with cs(3) have "list_all2 (fetched_for ''key'') cs
      (take (length cs) (map example_transfer [1, 2, 3, 4]))" by blast
  moreover have "cs = map (\<lambda>i. GetNftImage ''key'' (PStr ''0xabc'') (PInt i)) [1, 2, 3]"
    using cs(1) example_nft_calls by (simp add: fresh_def)
  ultimately show ?thesis using cs(1,2) by blast
qed

section \<open>The simulation call and its failures\<close>

text \<open>The body of \<^verbatim>\<open>simulate_tx\<close>: the request is sent, and the body of the answer is parsed.\<close>

lemma simulate_tx_body_outcome:
  "simulate_tx_body env k tx c s =
     (bnd (requests_post env (net s) (simulate_request k tx c))
        (\<lambda>resp. json_loads env (content resp)),
      s\<lparr>net := net s @ [simulate_request k tx c]\<rparr>)"
  by (simp add: simulate_tx_body_def seq_def http_post_def lift_def bnd_def split: sum.splits)

lemma simulate_tx_miss:
  "cache_lookup (Some 300) now (sim_cache s) (k, tx, c) = None \<Longrightarrow>
   simulate_tx env now k tx c s =
     (case bnd (requests_post env (net s) (simulate_request k tx c))
             (\<lambda>resp. json_loads env (content resp)) of
        Inl e \<Rightarrow> (Inl e, s\<lparr>calls := calls s @ [SimulateTx k tx c],
                           net := net s @ [simulate_request k tx c]\<rparr>)
      | Inr v \<Rightarrow> (Inr v, s\<lparr>calls := calls s @ [SimulateTx k tx c],
                           net := net s @ [simulate_request k tx c],
                           sim_cache := ((k, tx, c), (now, v)) # sim_cache s\<rparr>))"
  by (simp add: simulate_tx_def Let_def simulate_tx_body_outcome split: sum.splits)

lemma simulate_tx_hit:
  "cache_lookup (Some 300) now (sim_cache s) (k, tx, c) = Some v \<Longrightarrow>
   simulate_tx env now k tx c s = (Inr v, s\<lparr>calls := calls s @ [SimulateTx k tx c]\<rparr>)"
  by (simp add: simulate_tx_def Let_def)

lemma on_simulate_raises:
  "startswith raw_tx ''0x'' \<Longrightarrow> chain_id_of chain = Inr c \<Longrightarrow>
   simulate_tx env now k raw_tx c s = (Inl e, s') \<Longrightarrow>
   on_simulate env now k chain raw_tx s =
     (Inr (), s'\<lparr>ui := ui s' @ [StError [Lit (collision @ '' API Error: ''), FmtExn e]]\<rparr>)"
  by (simp add: on_simulate_def try_except_def seq_def lift_def st_def)

lemma on_simulate_error_field:
  "startswith raw_tx ''0x'' \<Longrightarrow> chain_id_of chain = Inr c \<Longrightarrow>
   simulate_tx env now k raw_tx c s = (Inr (PDict kvs), s') \<Longrightarrow> map_of kvs ''error'' = Some v \<Longrightarrow>
   on_simulate env now k chain raw_tx s =
     (Inr (), s'\<lparr>ui := ui s' @ [StSubheader (bar_chart @ '' Results''),
                                 StError [Lit (cross_mark @ '' ''), Fmt v]]\<rparr>)"
  by (simp add: on_simulate_def try_except_def seq_def lift_def st_def show_result_def)

lemma example_chain: "chain_id_of ''Ethereum'' = Inr 1"
  by (simp add: chain_id_of_def CHAIN_IDS_def)

lemma example_prefixed: "startswith ''0x00'' ''0x''"
  by (simp add: startswith_def)

lemma example_post: "requests_post (example_env answer) sent req = answer"
  by (simp add: example_env_def)

lemma fresh_fields:
  "ui fresh = []" "net fresh = []" "sim_cache fresh = []" "img_cache fresh = []" "calls fresh = []"
  by (simp_all add: fresh_def)

text \<open>
  C2, as the code has it. In a press of the button that reaches the server (prefixed call
  data, a chain of the table, nothing fresh in the cache): when \<^verbatim>\<open>requests.post\<close> raises,
  as it does on a timeout or a lost connection, or when the body of the answer is not
  JSON, the page gets the one element \<^verbatim>\<open>API Error\<close> with the exception, and nothing is
  cached; when the body parses to an object with an \<^verbatim>\<open>error\<close> field, the page gets the
  results header and the error of the field, and the object is cached. The two reports
  are different elements. The response's status code occurs in neither case: an answer is
  handled by its body alone.
\<close>

theorem simulation_failures_reported:
  assumes "startswith raw_tx ''0x''" and "chain_id_of chain = Inr c"
    and "cache_lookup (Some 300) now (sim_cache s) (k, raw_tx, c) = None"
  shows
   "(\<forall>e. requests_post env (net s) (simulate_request k raw_tx c) = Inl e \<or>
         (\<exists>resp. requests_post env (net s) (simulate_request k raw_tx c) = Inr resp \<and>
                 json_loads env (content resp) = Inl e) \<longrightarrow>
       on_simulate env now k chain raw_tx s =
         (Inr (), s\<lparr>calls := calls s @ [SimulateTx k raw_tx c],
                    net := net s @ [simulate_request k raw_tx c],
                    ui := ui s @ [StError [Lit (collision @ '' API Error: ''), FmtExn e]]\<rparr>)) \<and>
    (\<forall>resp kvs v. requests_post env (net s) (simulate_request k raw_tx c) = Inr resp \<and>
         json_loads env (content resp) = Inr (PDict kvs) \<and> map_of kvs ''error'' = Some v \<longrightarrow>
       on_simulate env now k chain raw_tx s =
         (Inr (), s\<lparr>calls := calls s @ [SimulateTx k raw_tx c],
                    net := net s @ [simulate_request k raw_tx c],
                    sim_cache := ((k, raw_tx, c), (now, PDict kvs)) # sim_cache s,
                    ui := ui s @ [StSubheader (bar_chart @ '' Results''),
                                  StError [Lit (cross_mark @ '' ''), Fmt v]]\<rparr>)) \<and>
    (\<forall>e v. StError [Lit (collision @ '' API Error: ''), FmtExn e] \<noteq>
           StError [Lit (cross_mark @ '' ''), Fmt v])"
proof (intro conjI allI impI)
  fix e
  assume "requests_post env (net s) (simulate_request k raw_tx c) = Inl e \<or>
         (\<exists>resp. requests_post env (net s) (simulate_request k raw_tx c) = Inr resp \<and>
                 json_loads env (content resp) = Inl e)"
  then have "bnd (requests_post env (net s) (simulate_request k raw_tx c))
               (\<lambda>resp. json_loads env (content resp)) = Inl e"
    by (auto simp: bnd_def)
  with assms(3) have "simulate_tx env now k raw_tx c s =
      (Inl e, s\<lparr>calls := calls s @ [SimulateTx k raw_tx c],
                net := net s @ [simulate_request k raw_tx c]\<rparr>)"
    by (simp add: simulate_tx_miss)
  from on_simulate_raises[OF assms(1,2) this]
  show "on_simulate env now k chain raw_tx s =
         (Inr (), s\<lparr>calls := calls s @ [SimulateTx k raw_tx c],
                    net := net s @ [simulate_request k raw_tx c],
                    ui := ui s @ [StError [Lit (collision @ '' API Error: ''), FmtExn e]]\<rparr>)"
    by simp
next
  fix resp kvs v
  assume a: "requests_post env (net s) (simulate_request k raw_tx c) = Inr resp \<and>
         json_loads env (content resp) = Inr (PDict kvs) \<and> map_of kvs ''error'' = Some v"
  then have "bnd (requests_post env (net s) (simulate_request k raw_tx c))
               (\<lambda>resp. json_loads env (content resp)) = Inr (PDict kvs)"
    by (simp add: bnd_def)
  with assms(3) have "simulate_tx env now k raw_tx c s =
      (Inr (PDict kvs), s\<lparr>calls := calls s @ [SimulateTx k raw_tx c],
                net := net s @ [simulate_request k raw_tx c],
                sim_cache := ((k, raw_tx, c), (now, PDict kvs)) # sim_cache s\<rparr>)"
    by (simp add: simulate_tx_miss)
  from on_simulate_error_field[OF assms(1,2) this] a
  show "on_simulate env now k chain raw_tx s =
         (Inr (), s\<lparr>calls := calls s @ [SimulateTx k raw_tx c],
                    net := net s @ [simulate_request k raw_tx c],
                    sim_cache := ((k, raw_tx, c), (now, PDict kvs)) # sim_cache s,
                    ui := ui s @ [StSubheader (bar_chart @ '' Results''),
                                  StError [Lit (cross_mark @ '' ''), Fmt v]]\<rparr>)"
    by simp
next
  fix e v
  show "StError [Lit (collision @ '' API Error: ''), FmtExn e] \<noteq>
        StError [Lit (cross_mark @ '' ''), Fmt v]"
    by simp
qed

text \<open>A timeout, and an answer with status 200 and an \<^verbatim>\<open>error\<close> field.\<close>

theorem simulation_failures_reported_witness:
  "ui (snd (on_simulate (example_env (Inl (LibraryError ''Read timed out''))) 0 ''key''
              ''Ethereum'' ''0x00'' fresh)) =
     [StError [Lit (collision @ '' API Error: ''), FmtExn (LibraryError ''Read timed out'')]] \<and>
   ui (snd (on_simulate (example_env (Inr \<lparr>status_code = 200, content = unauthorized_body\<rparr>)) 0
              ''key'' ''Ethereum'' ''0x00'' fresh)) =
     [StSubheader (bar_chart @ '' Results''),
      StError [Lit (cross_mark @ '' ''), Fmt (PStr ''unauthorized'')]]"
proof -
  have miss: "cache_lookup (Some 300) 0 (sim_cache fresh) (''key'', ''0x00'', 1) = None"
    by (simp add: cache_lookup_def fresh_fields)
  note t1 = simulation_failures_reported[OF example_prefixed example_chain miss,
      of "example_env (Inl (LibraryError ''Read timed out''))"]
  note t2 = simulation_failures_reported[OF example_prefixed example_chain miss,
      of "example_env (Inr \<lparr>status_code = 200, content = unauthorized_body\<rparr>)"]
  have "ui (snd (on_simulate (example_env (Inl (LibraryError ''Read timed out''))) 0 ''key''
              ''Ethereum'' ''0x00'' fresh)) =
     [StError [Lit (collision @ '' API Error: ''), FmtExn (LibraryError ''Read timed out'')]]"
    using t1 by (simp add: example_post fresh_fields)
  moreover have "ui (snd (on_simulate
      (example_env (Inr \<lparr>status_code = 200, content = unauthorized_body\<rparr>)) 0
              ''key'' ''Ethereum'' ''0x00'' fresh)) =
     [StSubheader (bar_chart @ '' Results''),
      StError [Lit (cross_mark @ '' ''), Fmt (PStr ''unauthorized'')]]"
    using t2 by (simp add: example_post example_parses fresh_fields)
  ultimately show ?thesis by blast
qed

text \<open>
  The claim as stated fails: an answer with status 401 is no failure for the script. Its
  body is parsed and shown, here as the in-band error, exactly as the same body with
  status 200 is; and an answer with status 500 whose body has no \<^verbatim>\<open>error\<close> field is
  shown as the result of a simulation.
\<close>

lemma example_on_simulate:
  "json_loads (example_env (Inr resp)) (content resp) = Inr result \<Longrightarrow>
   on_simulate (example_env (Inr resp)) 0 ''key'' ''Ethereum'' ''0x00'' fresh =
     (case show_result (example_env (Inr resp)) 0 ''key'' result
             (fresh\<lparr>calls := [SimulateTx ''key'' ''0x00'' 1],
                    net := [simulate_request ''key'' ''0x00'' 1],
                    sim_cache := [((''key'', ''0x00'', 1), (0, result))]\<rparr>) of
        (Inl e, s') \<Rightarrow> (Inr (), s'\<lparr>ui := ui s' @ [StError [Lit (collision @ '' API Error: ''), FmtExn e]]\<rparr>)
      | (Inr u, s') \<Rightarrow> (Inr u, s'))"
  by (simp add: on_simulate_def try_except_def seq_def lift_def st_def example_prefixed
      example_chain simulate_tx_miss cache_lookup_def fresh_fields example_post bnd_def
      split: prod.splits sum.splits)

theorem http_status_ignored_counterexample:
  "ui (snd (on_simulate (example_env (Inr \<lparr>status_code = 401, content = unauthorized_body\<rparr>)) 0
              ''key'' ''Ethereum'' ''0x00'' fresh)) =
     [StSubheader (bar_chart @ '' Results''),
      StError [Lit (cross_mark @ '' ''), Fmt (PStr ''unauthorized'')]] \<and>
   ui (snd (on_simulate (example_env (Inr \<lparr>status_code = 200, content = unauthorized_body\<rparr>)) 0
              ''key'' ''Ethereum'' ''0x00'' fresh)) =
     [StSubheader (bar_chart @ '' Results''),
      StError [Lit (cross_mark @ '' ''), Fmt (PStr ''unauthorized'')]] \<and>
   ui (snd (on_simulate (example_env (Inr \<lparr>status_code = 500, content = success_body\<rparr>)) 0
              ''key'' ''Ethereum'' ''0x00'' fresh)) =
     [StSubheader (bar_chart @ '' Results''), StColumns 2,
      InColumn 0 (StMetric ''Status'' (PStr (check_mark @ '' Success''))),
      InColumn 1 (StMetric ''Gas Used'' (PInt 21000))]"
  by (simp add: example_on_simulate example_parses show_result_def show_success_def
      basic_info_def balance_changes_def nft_previews_def risk_detection_def risks_def bnd_def
      seq_def st_def lift_def ret_def fresh_fields)

section \<open>The cache of simulation results\<close>

text \<open>While the entry of the arguments is fresh, every call returns it and sends nothing.\<close>

lemma repeat_simulate_fresh:
  "map_of (sim_cache s) (k, tx, c) = Some (t0, v) \<Longrightarrow> \<forall>t\<in>set ts. t < t0 + 300 \<Longrightarrow>
   repeat_simulate env k tx c ts s =
     (replicate (length ts) (Inr v),
      s\<lparr>calls := calls s @ replicate (length ts) (SimulateTx k tx c)\<rparr>)"
proof (induction ts arbitrary: s)
  case Nil
  then show ?case by simp
next
  case (Cons t ts)
  define s' where "s' = s\<lparr>calls := calls s @ [SimulateTx k tx c]\<rparr>"
  have "cache_lookup (Some 300) t (sim_cache s) (k, tx, c) = Some v"
    using Cons.prems by (simp add: cache_lookup_def)
  then have step: "simulate_tx env t k tx c s = (Inr v, s')"
    unfolding s'_def by (rule simulate_tx_hit)
  have "map_of (sim_cache s') (k, tx, c) = Some (t0, v)"
    using Cons.prems(1) by (simp add: s'_def)
  moreover have "\<forall>t\<in>set ts. t < t0 + 300" using Cons.prems(2) by simp
  ultimately have "repeat_simulate env k tx c ts s' =
     (replicate (length ts) (Inr v),
      s'\<lparr>calls := calls s' @ replicate (length ts) (SimulateTx k tx c)\<rparr>)"
    by (rule Cons.IH)
  with step show ?case by (simp add: s'_def)
qed

text \<open>
  C7. Take a call of \<^verbatim>\<open>simulate_tx\<close> at time \<open>t0\<close> that finds nothing fresh in the
  cache and returns a result \<open>v\<close>. It sends one request. Any number of later calls with
  the same three arguments at times before \<open>t0 + 300\<close> all return \<open>v\<close> and leave the log
  of requests as it is, so the endpoint was reached once. A call with the same arguments
  at \<open>t0 + 300\<close> or later sends the request again.
\<close>

theorem cached_within_window:
  assumes "cache_lookup (Some 300) t0 (sim_cache s) (k, tx, c) = None"
    and "simulate_tx env t0 k tx c s = (Inr v, s1)"
  shows "net s1 = net s @ [simulate_request k tx c] \<and>
     ((\<forall>t\<in>set ts. t < t0 + 300) \<longrightarrow>
        repeat_simulate env k tx c ts s1 =
          (replicate (length ts) (Inr v),
           s1\<lparr>calls := calls s1 @ replicate (length ts) (SimulateTx k tx c)\<rparr>)) \<and>
     (\<forall>t s2. t0 + 300 \<le> t \<and> sim_cache s2 = sim_cache s1 \<longrightarrow>
        net (snd (simulate_tx env t k tx c s2)) = net s2 @ [simulate_request k tx c])"
proof -
  have s1: "s1 = s\<lparr>calls := calls s @ [SimulateTx k tx c],
                   net := net s @ [simulate_request k tx c],
                   sim_cache := ((k, tx, c), (t0, v)) # sim_cache s\<rparr>"
    using assms by (auto simp: simulate_tx_miss split: sum.splits)
  have entry: "map_of (sim_cache s1) (k, tx, c) = Some (t0, v)"
    by (simp add: s1)
  have a: "net s1 = net s @ [simulate_request k tx c]" by (simp add: s1)
  have b: "(\<forall>t\<in>set ts. t < t0 + 300) \<longrightarrow>
        repeat_simulate env k tx c ts s1 =
          (replicate (length ts) (Inr v),
           s1\<lparr>calls := calls s1 @ replicate (length ts) (SimulateTx k tx c)\<rparr>)"
    using repeat_simulate_fresh[OF entry] by blast
  have c: "net (snd (simulate_tx env t k tx c s2)) = net s2 @ [simulate_request k tx c]"
    if "t0 + 300 \<le> t" "sim_cache s2 = sim_cache s1" for t and s2 :: state
  proof -
    have "cache_lookup (Some 300) t (sim_cache s2) (k, tx, c) = None"
      using that entry by (simp add: cache_lookup_def)
    then show ?thesis by (simp add: simulate_tx_miss split: sum.splits)
  qed
  from a b c show ?thesis by blast
qed

text \<open>
  A first call at time 0, repeated at 1 and at 299.5 seconds: one request in all. The
  call at 300 seconds sends the second.
\<close>

lemma example_first_call:
  "simulate_tx (example_env (Inr \<lparr>status_code = 200, content = success_body\<rparr>)) 0
     ''key'' ''0x00'' 1 fresh =
   (Inr (PDict [(''success'', PBool True), (''gas_used'', PInt 21000)]),
    fresh\<lparr>calls := [SimulateTx ''key'' ''0x00'' 1],
          net := [simulate_request ''key'' ''0x00'' 1],
          sim_cache := [((''key'', ''0x00'', 1), (0,
             PDict [(''success'', PBool True), (''gas_used'', PInt 21000)]))]\<rparr>)"
  by (simp add: simulate_tx_miss cache_lookup_def fresh_fields example_post example_parses bnd_def)

theorem cached_within_window_witness:
  "cache_lookup (Some 300) 0 (sim_cache fresh) (''key'', ''0x00'', 1) = None \<and>
   net (snd (repeat_simulate (example_env (Inr \<lparr>status_code = 200, content = success_body\<rparr>))
               ''key'' ''0x00'' 1 [0, 1, 599 / 2] fresh)) = [simulate_request ''key'' ''0x00'' 1] \<and>
   fst (repeat_simulate (example_env (Inr \<lparr>status_code = 200, content = success_body\<rparr>))
               ''key'' ''0x00'' 1 [0, 1, 599 / 2] fresh) =
     replicate 3 (Inr (PDict [(''success'', PBool True), (''gas_used'', PInt 21000)])) \<and>
   net (snd (repeat_simulate (example_env (Inr \<lparr>status_code = 200, content = success_body\<rparr>))
               ''key'' ''0x00'' 1 [0, 300] fresh)) =
     [simulate_request ''key'' ''0x00'' 1, simulate_request ''key'' ''0x00'' 1]"
proof -
  let ?env = "example_env (Inr \<lparr>status_code = 200, content = success_body\<rparr>)"
  let ?v = "PDict [(''success'', PBool True), (''gas_used'', PInt 21000)]"
  let ?s1 = "fresh\<lparr>calls := [SimulateTx ''key'' ''0x00'' 1],
          net := [simulate_request ''key'' ''0x00'' 1],
          sim_cache := [((''key'', ''0x00'', 1), (0, ?v))]\<rparr>"
  have miss: "cache_lookup (Some 300) 0 (sim_cache fresh) (''key'', ''0x00'', 1) = None"
    by (simp add: cache_lookup_def fresh_fields)
  note t = cached_within_window[OF miss example_first_call, of "[1, 599 / 2]"]
  have early: "\<forall>t\<in>set [1, 599 / 2 :: rat]. t < 0 + 300" by simp
  from t early have within: "repeat_simulate ?env ''key'' ''0x00'' 1 [1, 599 / 2] ?s1 =
        (replicate (length [1, 599 / 2 :: rat]) (Inr ?v),
         ?s1\<lparr>calls := calls ?s1 @ replicate (length [1, 599 / 2 :: rat])
                 (SimulateTx ''key'' ''0x00'' 1)\<rparr>)"
    by blast
  from t have "\<forall>t s2. 0 + 300 \<le> t \<and> sim_cache s2 = sim_cache ?s1 \<longrightarrow>
      net (snd (simulate_tx ?env t ''key'' ''0x00'' 1 s2)) =
        net s2 @ [simulate_request ''key'' ''0x00'' 1]"
    by blast
  then have after: "net (snd (simulate_tx ?env 300 ''key'' ''0x00'' 1 ?s1)) =
        net ?s1 @ [simulate_request ''key'' ''0x00'' 1]"
    by simp
  have first: "repeat_simulate ?env ''key'' ''0x00'' 1 (0 # ts) fresh =
      (case repeat_simulate ?env ''key'' ''0x00'' 1 ts ?s1 of (rs, s'') \<Rightarrow> (Inr ?v # rs, s''))"
    for ts by (simp add: example_first_call)
  have "repeat_simulate ?env ''key'' ''0x00'' 1 [0, 1, 599 / 2] fresh =
      (Inr ?v # replicate (length [1, 599 / 2 :: rat]) (Inr ?v),
       ?s1\<lparr>calls := calls ?s1 @ replicate (length [1, 599 / 2 :: rat])
                 (SimulateTx ''key'' ''0x00'' 1)\<rparr>)"
    by (simp only: first within prod.case)
  then have three: "net (snd (repeat_simulate ?env ''key'' ''0x00'' 1 [0, 1, 599 / 2] fresh)) =
      [simulate_request ''key'' ''0x00'' 1] \<and>
    fst (repeat_simulate ?env ''key'' ''0x00'' 1 [0, 1, 599 / 2] fresh) = replicate 3 (Inr ?v)"
    by (simp add: numeral_3_eq_3)
  have "net (snd (repeat_simulate ?env ''key'' ''0x00'' 1 [0, 300] fresh)) =
      net (snd (simulate_tx ?env 300 ''key'' ''0x00'' 1 ?s1))"
    unfolding first[of "[300]"] by (simp split: prod.splits)
  with after have late: "net (snd (repeat_simulate ?env ''key'' ''0x00'' 1 [0, 300] fresh)) =
      [simulate_request ''key'' ''0x00'' 1, simulate_request ''key'' ''0x00'' 1]"
    by simp
  from three late miss show ?thesis by blast
qed

end
